theory Spec2Isabelle
  imports Complex_Main "HOL-Library.Product_Lexorder"
begin

section \<open>Floating-point values and the numpy primitives the orchestrator uses\<close>

text \<open>
  The flux array of a light curve may hold non-finite entries (the source checks for them
  with \<^verbatim>\<open>np.isfinite\<close>), so a float is a real number, an infinity or NaN. Arithmetic on
  finite values is exact real arithmetic: rounding is not modelled.
\<close>

datatype npfloat = Fin real | PosInf | NegInf | NaN

fun isfinite :: "npfloat \<Rightarrow> bool" where
  "isfinite (Fin r) = True"
| "isfinite PosInf = False"
| "isfinite NegInf = False"
| "isfinite NaN = False"

fun isnan :: "npfloat \<Rightarrow> bool" where
  "isnan NaN = True"
| "isnan (Fin r) = False"
| "isnan PosInf = False"
| "isnan NegInf = False"

text \<open>IEEE comparison \<^verbatim>\<open>x < y\<close>: false as soon as one side is NaN.\<close>

fun np_less :: "npfloat \<Rightarrow> npfloat \<Rightarrow> bool" where
  "np_less NaN y = False"
| "np_less x NaN = False"
| "np_less (Fin a) (Fin b) = (a < b)"
| "np_less (Fin a) PosInf = True"
| "np_less (Fin a) NegInf = False"
| "np_less PosInf y = False"
| "np_less NegInf NegInf = False"
| "np_less NegInf y = True"

text \<open>IEEE comparison \<^verbatim>\<open>x >= y\<close>.\<close>

definition np_ge :: "npfloat \<Rightarrow> npfloat \<Rightarrow> bool" where
  "np_ge x y = (if isnan x then False else if isnan y then False else (if np_less x y then False else True))"

text \<open>\<^verbatim>\<open>a - b\<close> on floats.\<close>

fun np_sub :: "npfloat \<Rightarrow> npfloat \<Rightarrow> npfloat" where
  "np_sub NaN y = NaN"
| "np_sub x NaN = NaN"
| "np_sub (Fin a) (Fin b) = Fin (a - b)"
| "np_sub (Fin a) PosInf = NegInf"
| "np_sub (Fin a) NegInf = PosInf"
| "np_sub PosInf PosInf = NaN"
| "np_sub PosInf y = PosInf"
| "np_sub NegInf NegInf = NaN"
| "np_sub NegInf y = NegInf"

text \<open>\<^verbatim>\<open>1./f\<close> on an array element: numpy yields an infinity at zero, it does not raise.\<close>

definition np_recip :: "real \<Rightarrow> npfloat" where
  "np_recip f = (if f = 0 then PosInf else Fin (1 / f))"

datatype error =
    ZeroDivisionError
  | AssertionError
  | ValueError
  | IndexError
  | InvalidInput
  | InvalidPeriod
  | FitDidNotConverge

text \<open>
  \<^verbatim>\<open>np.linspace(start, stop, num)\<close>: \<open>num\<close> evenly spaced samples, both ends included.
\<close>

definition linspace :: "real \<Rightarrow> real \<Rightarrow> nat \<Rightarrow> real list" where
  "linspace start stop num =
     map (\<lambda>i. start + real i * ((stop - start) / real (num - 1))) [0..<num]"

text \<open>Boolean-mask indexing \<^verbatim>\<open>xs[m]\<close>: the entries of \<open>xs\<close> where the mask is true.\<close>

definition select :: "'a list \<Rightarrow> bool list \<Rightarrow> 'a list" where
  "select xs m = map fst (filter snd (zip xs m))"

text \<open>
  \<^verbatim>\<open>np.argmin\<close>: the index of the first minimum; a NaN counts as minimal, so the first NaN
  wins; an empty array raises ValueError. The loop keeps the running minimum \<open>mp\<close>, its
  index \<open>mi\<close> and the current position \<open>i\<close>.
\<close>

fun argmin_loop :: "npfloat \<Rightarrow> nat \<Rightarrow> nat \<Rightarrow> npfloat list \<Rightarrow> nat" where
  "argmin_loop mp mi i [] = mi"
| "argmin_loop mp mi i (x # xs) =
     (if np_ge x mp then argmin_loop mp mi (Suc i) xs
      else if isnan x then i
      else argmin_loop x i (Suc i) xs)"

fun np_argmin :: "npfloat list \<Rightarrow> error + nat" where
  "np_argmin [] = Inl ValueError"
| "np_argmin (x # xs) = Inr (if isnan x then 0 else argmin_loop x 0 1 xs)"

text \<open>The builtin \<^verbatim>\<open>max\<close> over a non-empty sequence of reals.\<close>

fun max_list :: "real list \<Rightarrow> real" where
  "max_list [] = 0"
| "max_list [x] = x"
| "max_list (x # y # ys) = max x (max_list (y # ys))"

section \<open>RotationModel\<close>

text \<open>
  The object's attributes. \<^verbatim>\<open>__init__\<close> sets the first four; every other attribute is
  absent (\<open>None\<close>) until the operation that writes it has run.
\<close>

record rotation_model =
  time :: "real list"
  flux :: "npfloat list"
  flux_err :: "npfloat list"
  Rvar :: npfloat
  freq :: "real list option"
  ls_power :: "real list option"
  ls_period :: "npfloat option"
  acf_x :: "real list option"
  acf_y :: "real list option"
  lags :: "real list option"
  acf :: "real list option"
  acf_period :: "real option"
  pdm_nbins :: "int option"
  period_grid :: "real list option"
  phis :: "npfloat list option"
  pdm_period :: "real option"
  sigma :: "real option"
  mu :: "real option"
  fit_a :: "real option"
  fit_b :: "real option"
  period_err :: "real option"
  phase :: "real list option"

text \<open>
  \<^verbatim>\<open>__init__(self, time, flux, flux_err)\<close>; \<open>percentile\<close> stands for \<^verbatim>\<open>np.percentile\<close>.
\<close>

definition init ::
  "(npfloat list \<Rightarrow> real \<Rightarrow> npfloat) \<Rightarrow> real list \<Rightarrow> npfloat list \<Rightarrow> npfloat list \<Rightarrow> rotation_model" where
  "init percentile t f fe =
     \<lparr> time = t, flux = f, flux_err = fe,
       Rvar = np_sub (percentile f 95) (percentile f 5),
       freq = None, ls_power = None, ls_period = None,
       acf_x = None, acf_y = None, lags = None, acf = None, acf_period = None,
       pdm_nbins = None, period_grid = None, phis = None, pdm_period = None,
       sigma = None, mu = None, fit_a = None, fit_b = None, period_err = None,
       phase = None \<rparr>"

subsection \<open>ls_rotation\<close>

text \<open>
  Lines 90 to 94: the frequency grid. With both \<open>input_freq\<close> and \<open>input_power\<close> given they
  are stored; otherwise the grid is \<^verbatim>\<open>np.linspace(1./max_period, 1./min_period, 100000)\<close>,
  where the division of Python floats raises ZeroDivisionError at zero.
\<close>

definition set_freq ::
  "rotation_model \<Rightarrow> real \<Rightarrow> real \<Rightarrow> real list option \<Rightarrow> real list option
     \<Rightarrow> error + (real list \<times> rotation_model)" where
  "set_freq rm min_period max_period input_freq input_power =
     (case (input_freq, input_power) of
        (Some fr, Some pw) \<Rightarrow> Inr (fr, rm\<lparr>freq := Some fr, ls_power := Some pw\<rparr>)
      | _ \<Rightarrow>
         if max_period = 0 then Inl ZeroDivisionError
         else if min_period = 0 then Inl ZeroDivisionError
         else let fr = linspace (1 / max_period) (1 / min_period) 100000
              in Inr (fr, rm\<lparr>freq := Some fr\<rparr>))"

text \<open>
  Lines 107 and 108: the indices \<open>i\<close> of \<^verbatim>\<open>range(1, n-1)\<close> whose value is strictly above both
  neighbours.
\<close>

definition find_peaks :: "nat \<Rightarrow> real list \<Rightarrow> nat list" where
  "find_peaks n y = filter (\<lambda>i. y ! (i - 1) < y ! i \<and> y ! (i + 1) < y ! i) [1..<n - 1]"

text \<open>
  \<open>lombscargle t f \<nu>\<close> stands for the external periodogram
  \<^verbatim>\<open>apt.LombScargle(t, f).power(freq)\<close> at one frequency \<open>\<nu>\<close>, so the power array has the
  length of the frequency array. The arguments \<open>high_pass\<close> and \<open>samples_per_peak\<close> of the
  source are never read and are left out. The result pairs what the call returns (or
  raises) with the object as the call leaves it.
\<close>

definition ls_rotation ::
  "(real list \<Rightarrow> npfloat list \<Rightarrow> real \<Rightarrow> real) \<Rightarrow> rotation_model \<Rightarrow> real \<Rightarrow> real
     \<Rightarrow> real list option \<Rightarrow> real list option \<Rightarrow> npfloat option
     \<Rightarrow> (error + npfloat) \<times> rotation_model" where
  "ls_rotation lombscargle rm min_period max_period input_freq input_power input_ls_period =
     (case set_freq rm min_period max_period input_freq input_power of
        Inl e \<Rightarrow> (Inl e, rm)
      | Inr (fr, rm1) \<Rightarrow>
         (case input_ls_period of
            Some p \<Rightarrow> (Inr p, rm1\<lparr>ls_period := Some p\<rparr>)
          | None \<Rightarrow>
             if length (flux rm1) \<noteq> sum_list (map (\<lambda>x. if isfinite x then 1 else 0) (flux rm1))
             then (Inl AssertionError, rm1)
             else
               let pw = map (lombscargle (time rm1) (flux rm1)) fr;
                   rm2 = rm1\<lparr>ls_power := Some pw\<rparr>;
                   ps = map np_recip fr;
                   peaks = find_peaks (length ps) pw
               in if length peaks = 0
                  then (Inr (Fin 0), rm2\<lparr>ls_period := Some (Fin 0)\<rparr>)
                  else
                    (case select ps (map (\<lambda>w. w = max_list (map (\<lambda>i. pw ! i) peaks)) pw) of
                       [] \<Rightarrow> (Inl IndexError, rm2)
                     | p # _ \<Rightarrow> (Inr p, rm2\<lparr>ls_period := Some p\<rparr>))))"

subsection \<open>acf_rotation\<close>

text \<open>The \<open>interval\<close> argument: a cadence in days, or a name.\<close>

datatype interval = Named string | Days real

text \<open>Lines 154 to 157: the two named cadences become their value in days.\<close>

definition named_interval :: "interval \<Rightarrow> interval" where
  "named_interval interval0 =
     (let interval1 = (if interval0 = Named ''TESS'' then Days (138889 / 100000000) else interval0)
      in if interval1 = Named ''Kepler'' then Days (2043365 / 100000000) else interval1)"

text \<open>
  \<open>simple_acf\<close> and \<open>get_peak_statistics\<close> are the functions of \<^verbatim>\<open>rotation_tools\<close> the method
  calls. The mask \<^verbatim>\<open>lags > cutoff\<close> has the length of \<open>lags\<close>; numpy raises IndexError when it
  is applied to an array of another length, and so does \<^verbatim>\<open>xpeaks[0]\<close> on an empty array.
\<close>

definition acf_rotation ::
  "(real list \<Rightarrow> npfloat list \<Rightarrow> interval \<Rightarrow> real \<Rightarrow> int \<Rightarrow> int
      \<Rightarrow> error + (real list \<times> real list \<times> real list \<times> real list))
   \<Rightarrow> (real list \<Rightarrow> real list \<Rightarrow> string \<Rightarrow> real list \<times> real list)
   \<Rightarrow> rotation_model \<Rightarrow> interval \<Rightarrow> real \<Rightarrow> real \<Rightarrow> int \<Rightarrow> int
   \<Rightarrow> (error + real) \<times> rotation_model" where
  "acf_rotation simple_acf get_peak_statistics rm interval0 smooth cutoff window_length polyorder =
     (case simple_acf (time rm) (flux rm) (named_interval interval0) smooth window_length polyorder of
        Inl e \<Rightarrow> (Inl e, rm)
      | Inr (lgs, ac, x, y) \<Rightarrow>
         let rm1 = rm\<lparr>acf_x := Some x, acf_y := Some y\<rparr>;
             m = map (\<lambda>l. cutoff < l) lgs
         in if length ac \<noteq> length lgs then (Inl IndexError, rm1)
            else
              (case get_peak_statistics (select lgs m) (select ac m) ''height'' of
                 (xpeaks, ypeaks) \<Rightarrow>
                   let rm2 = rm1\<lparr>lags := Some (select lgs m), acf := Some (select ac m)\<rparr>
                   in (case xpeaks of
                         [] \<Rightarrow> (Inl IndexError, rm2)
                       | p # _ \<Rightarrow> (Inr p, rm2\<lparr>acf_period := Some p\<rparr>))))"

subsection \<open>pdm_rotation\<close>

text \<open>
  Lines 208 to 212: the statistic at every grid point, in grid order; the first exception
  ends the loop and the call.
\<close>

fun eval_grid :: "(real \<Rightarrow> error + npfloat) \<Rightarrow> real list \<Rightarrow> error + npfloat list" where
  "eval_grid f [] = Inr []"
| "eval_grid f (p # ps) =
     (case f p of
        Inl e \<Rightarrow> Inl e
      | Inr v \<Rightarrow> (case eval_grid f ps of Inl e \<Rightarrow> Inl e | Inr vs \<Rightarrow> Inr (v # vs)))"

text \<open>
  \<open>phi\<close>, \<open>estimate_uncertainty\<close> and \<open>calc_phase\<close> are the functions of
  \<^verbatim>\<open>phase_dispersion_minimization\<close> the method calls. The test
  \<^verbatim>\<open>hasattr(self.pdm_period, 'len')\<close> of line 219 is false for every number, so the
  stored period is the grid entry itself.
\<close>

definition pdm_rotation ::
  "(int \<Rightarrow> real \<Rightarrow> real list \<Rightarrow> npfloat list \<Rightarrow> error + npfloat)
   \<Rightarrow> (real list \<Rightarrow> npfloat list \<Rightarrow> real \<Rightarrow> error + (real \<times> real \<times> real \<times> real))
   \<Rightarrow> (real \<Rightarrow> real list \<Rightarrow> error + real list)
   \<Rightarrow> rotation_model \<Rightarrow> real list \<Rightarrow> int
   \<Rightarrow> (error + (real \<times> real)) \<times> rotation_model" where
  "pdm_rotation phi estimate_uncertainty calc_phase rm grid nbins =
     (let rm1 = rm\<lparr>pdm_nbins := Some nbins, period_grid := Some grid\<rparr>
      in case eval_grid (\<lambda>p. phi nbins p (time rm1) (flux rm1)) grid of
           Inl e \<Rightarrow> (Inl e, rm1)
         | Inr ph \<Rightarrow>
            let rm2 = rm1\<lparr>phis := Some ph\<rparr>
            in (case np_argmin ph of
                  Inl e \<Rightarrow> (Inl e, rm2)
                | Inr ind \<Rightarrow>
                   let rm3 = rm2\<lparr>pdm_period := Some (grid ! ind)\<rparr>
                   in (case estimate_uncertainty grid ph (grid ! ind) of
                         Inl e \<Rightarrow> (Inl e, rm3)
                       | Inr (err, m, a, b) \<Rightarrow>
                          let rm4 = rm3\<lparr>sigma := Some err, mu := Some m, fit_a := Some a,
                                         fit_b := Some b, period_err := Some err\<rparr>
                          in (case calc_phase (grid ! ind) (time rm4) of
                                Inl e \<Rightarrow> (Inl e, rm4)
                              | Inr phs \<Rightarrow> (Inr (grid ! ind, err), rm4\<lparr>phase := Some phs\<rparr>)))))"

section \<open>The functions the orchestrator imports\<close>

text \<open>
  \<^verbatim>\<open>rotation_tools\<close> and \<^verbatim>\<open>phase_dispersion_minimization\<close> are modules of the package whose
  files are not among the sources at hand. The definitions of this section follow the
  specification of the package, with the signatures the orchestrator and the tests call.
\<close>

subsection \<open>The peak extractor\<close>

text \<open>
  Modelled from the spec: the ranking of \<^verbatim>\<open>get_peak_statistics\<close>, which is not among the
  sources. Section 4.1, criterion "height": descending by \<open>y\<close>, ties broken by ascending \<open>x\<close>.
  A pair \<open>(x, y)\<close> gets the key \<open>(- y, x)\<close>; keys are compared lexicographically.
\<close>

definition height_key :: "real \<times> real \<Rightarrow> real \<times> real" where
  "height_key p = (- snd p, fst p)"

text \<open>
  Modelled from the spec: \<^verbatim>\<open>get_peak_statistics(x, y, sort_by)\<close> of \<^verbatim>\<open>rotation_tools\<close> is not
  among the sources. Section 4.1: the indices \<open>i\<close> with \<open>1 \<le> i \<le> n - 2\<close>, \<open>y[i-1] < y[i]\<close> and
  \<open>y[i+1] < y[i]\<close>; under the criterion "height" the (x, y) pairs are sorted descending by
  \<open>y\<close>, ties broken by ascending \<open>x\<close>; no peak gives the empty result. The index test is the
  one of \<open>find_peaks\<close>.
\<close>

definition get_peak_statistics :: "real list \<Rightarrow> real list \<Rightarrow> string \<Rightarrow> real list \<times> real list" where
  "get_peak_statistics x y sort_by =
     (let pk = map (\<lambda>i. (x ! i, y ! i)) (find_peaks (length y) y);
          ranked = (if sort_by = ''height'' then sort_key height_key pk else pk)
      in (map fst ranked, map snd ranked))"

subsection \<open>Phase folding\<close>

text \<open>
  Modelled from the spec: the \<open>mod 1\<close> of section 4.2 (part of \<^verbatim>\<open>calc_phase\<close>, which is not among
  the sources), on a real number: the distance to the integer below.
\<close>

definition mod1 :: "real \<Rightarrow> real" where
  "mod1 v = v - of_int \<lfloor>v\<rfloor>"

text \<open>
  Modelled from the spec: \<^verbatim>\<open>calc_phase(p, t)\<close> of \<^verbatim>\<open>phase_dispersion_minimization\<close> is not
  among the sources. Section 4.2: \<open>phases[i] = ((times[i] - times[0]) / period) mod 1\<close>; fails
  with InvalidPeriod when \<open>period \<le> 0\<close>.
\<close>

definition calc_phase :: "real \<Rightarrow> real list \<Rightarrow> error + real list" where
  "calc_phase p t =
     (if p \<le> 0 then Inl InvalidPeriod
      else case t of
             [] \<Rightarrow> Inr []
           | t0 # _ \<Rightarrow> Inr (map (\<lambda>ti. mod1 ((ti - t0) / p)) t))"

subsection \<open>The dispersion statistic\<close>

text \<open>\<^verbatim>\<open>np.mean\<close> of a non-empty array; for the empty array the value of \<open>0 / 0\<close>.\<close>

definition mean :: "real list \<Rightarrow> real" where
  "mean xs = sum_list xs / real (length xs)"

text \<open>
  Modelled from the spec: \<^verbatim>\<open>sj2(x, meanx, N)\<close> is not among the sources. Section 4.3, step 3:
  the variance of a sample about a given mean, normalised by the number of points
  (population normalisation).
\<close>

definition sj2 :: "real list \<Rightarrow> real \<Rightarrow> nat \<Rightarrow> real" where
  "sj2 x meanx N = sum_list (map (\<lambda>v. (v - meanx) * (v - meanx)) x) / real N"

text \<open>
  Modelled from the spec: the numerator of \<^verbatim>\<open>s2\<close>, which is not among the sources. Section 4.3,
  step 4: \<open>\<Sum>\<^sub>j (n\<^sub>j - 1) sj2\<^sub>j\<close>, where a bin of fewer than two points contributes zero.
\<close>

definition pooled_numerator :: "nat list \<Rightarrow> real list \<Rightarrow> real" where
  "pooled_numerator nj sj2s =
     sum_list (map (\<lambda>(n, v). if n < 2 then 0 else (real n - 1) * v) (zip nj sj2s))"

text \<open>
  Modelled from the spec: \<^verbatim>\<open>s2(nj, sj2, M)\<close> is not among the sources. Section 4.3, step 4:
  the pooled variance \<open>\<Sum>\<^sub>j (n\<^sub>j - 1) sj2\<^sub>j / (\<Sum>\<^sub>j n\<^sub>j - M)\<close>. The caller passes \<open>M\<close>, as the
  tests do.
\<close>

definition s2 :: "nat list \<Rightarrow> real list \<Rightarrow> nat \<Rightarrow> real" where
  "s2 nj sj2s M = pooled_numerator nj sj2s / (real (sum_list nj) - real M)"

text \<open>
  Modelled from the spec: the bins of \<^verbatim>\<open>phase_bins\<close>, which is not among the sources. Section
  4.3, step 2: bin \<open>j\<close> of \<open>nbins\<close> equal-width half-open bins of \<open>[0, 1)\<close>.
\<close>

definition in_bin :: "nat \<Rightarrow> nat \<Rightarrow> real \<Rightarrow> bool" where
  "in_bin nbins j ph = (real j / real nbins \<le> ph \<and> ph < real (j + 1) / real nbins)"

text \<open>
  Modelled from the spec: \<^verbatim>\<open>phase_bins(nbins, phase, x)\<close> is not among the sources. Section 4.3,
  steps 2 and 3, and the data model's PhaseBinning: every point goes to the bin its phase
  lies in; per bin the count, the mean flux and the variance about the bin's own mean. The
  result is the tuple the tests unpack:
  \<open>(x_means, phase_bins, Ns, sj2s, x_binned, phase_binned)\<close>. The spec gives a bin without
  points no mean; here it is the value of \<open>0 / 0\<close>.
\<close>

definition phase_bins ::
  "nat \<Rightarrow> real list \<Rightarrow> real list
     \<Rightarrow> real list \<times> real list \<times> nat list \<times> real list \<times> real list list \<times> real list list" where
  "phase_bins nbins phases x =
     (let x_binned = map (\<lambda>j. map snd (filter (\<lambda>pv. in_bin nbins j (fst pv)) (zip phases x))) [0..<nbins];
          phase_binned = map (\<lambda>j. map fst (filter (\<lambda>pv. in_bin nbins j (fst pv)) (zip phases x))) [0..<nbins];
          Ns = map length x_binned;
          x_means = map mean x_binned;
          sj2s = map (\<lambda>xb. sj2 xb (mean xb) (length xb)) x_binned;
          phase_bs = map (\<lambda>j. real j / real nbins) [0..<nbins + 1]
      in (x_means, phase_bs, Ns, sj2s, x_binned, phase_binned))"

text \<open>
  Modelled from the spec: the \<open>M\<close> of \<^verbatim>\<open>phi\<close>, which is not among the sources. Section 4.3, step
  4: the number of occupied bins, those with at least one point.
\<close>

definition occupied :: "nat list \<Rightarrow> nat" where
  "occupied Ns = length (filter (\<lambda>n. 1 \<le> n) Ns)"

text \<open>The real number a finite float holds.\<close>

definition the_fin :: "npfloat \<Rightarrow> real" where
  "the_fin v = (case v of Fin r \<Rightarrow> r | PosInf \<Rightarrow> 0 | NegInf \<Rightarrow> 0 | NaN \<Rightarrow> 0)"

text \<open>
  Modelled from the spec: \<^verbatim>\<open>phi(nbins, p, t, x)\<close> is not among the sources. Section 4.3: fold
  at \<open>p\<close>, bin by phase, pool the within-bin variances with \<open>M\<close> the number of occupied bins,
  divide by the population variance of the whole flux. Section 7: non-finite flux and
  \<open>nbins < 2\<close> are InvalidInput, raised before any computation; a pooled-variance
  denominator \<open>\<le> 0\<close> gives the undefined statistic, here NaN.
\<close>

definition phi :: "int \<Rightarrow> real \<Rightarrow> real list \<Rightarrow> npfloat list \<Rightarrow> error + npfloat" where
  "phi nbins p t x =
     (if list_ex (\<lambda>v. \<not> isfinite v) x then Inl InvalidInput
      else if nbins < 2 then Inl InvalidInput
      else case calc_phase p t of
             Inl e \<Rightarrow> Inl e
           | Inr ph \<Rightarrow>
              (case phase_bins (nat nbins) ph (map the_fin x) of
                 (x_means, phase_bs, Ns, sj2s, x_binned, phase_binned) \<Rightarrow>
                   if real (sum_list Ns) - real (occupied Ns) \<le> 0 then Inr NaN
                   else Inr (Fin (s2 Ns sj2s (occupied Ns)
                                  / sj2 (map the_fin x) (mean (map the_fin x)) (length x)))))"

section \<open>Sample inputs\<close>

text \<open>A four-point light curve, and the same with a NaN in the flux.\<close>

definition sample_percentile :: "npfloat list \<Rightarrow> real \<Rightarrow> npfloat" where
  "sample_percentile f q = (case f of [] \<Rightarrow> NaN | v # _ \<Rightarrow> v)"

definition sample_model :: rotation_model where
  "sample_model = init sample_percentile [0, 1, 2, 3] [Fin 1, Fin 3, Fin 2, Fin 1]
     [Fin (1 / 10), Fin (1 / 10), Fin (1 / 10), Fin (1 / 10)]"

definition nan_model :: rotation_model where
  "nan_model = init sample_percentile [0, 1, 2, 3] [Fin 1, NaN, Fin 2, Fin 1]
     [Fin (1 / 10), Fin (1 / 10), Fin (1 / 10), Fin (1 / 10)]"

text \<open>Two periodograms: one rising with the frequency, one with a single peak at 2.\<close>

definition rising_periodogram :: "real list \<Rightarrow> npfloat list \<Rightarrow> real \<Rightarrow> real" where
  "rising_periodogram t f \<nu> = \<nu>"

definition peaked_periodogram :: "real list \<Rightarrow> npfloat list \<Rightarrow> real \<Rightarrow> real" where
  "peaked_periodogram t f \<nu> = 1 - (\<nu> - 2) * (\<nu> - 2)"

text \<open>
  A dispersion profile symmetric about the period 5/2, and a fit that reports that centre
  with width 1/2.
\<close>

definition symmetric_phi :: "int \<Rightarrow> real \<Rightarrow> real list \<Rightarrow> npfloat list \<Rightarrow> error + npfloat" where
  "symmetric_phi nbins p t f = Inr (Fin ((p - 5 / 2) * (p - 5 / 2)))"

definition centre_fit ::
  "real list \<Rightarrow> npfloat list \<Rightarrow> real \<Rightarrow> error + (real \<times> real \<times> real \<times> real)" where
  "centre_fit grid ph best = Inr (1 / 2, 5 / 2, - 1, 1)"

text \<open>An autocorrelation curve on the lags 0 to 6, with local maxima at the lags 2 and 4.\<close>

definition sample_acf ::
  "real list \<Rightarrow> npfloat list \<Rightarrow> interval \<Rightarrow> real \<Rightarrow> int \<Rightarrow> int
     \<Rightarrow> error + (real list \<times> real list \<times> real list \<times> real list)" where
  "sample_acf t f iv smooth window_length polyorder =
     Inr ([0, 1, 2, 3, 4, 5, 6], [10, 1, 5, 2, 7, 3, 1], [0, 1, 2, 3], [1, 3, 2, 1])"

text \<open>
  Two autocorrelation curves whose tallest local maximum above the lag 1 is at the lag 2,
  the first lag above 1: one with a second, lower local maximum at the lag 4, one without.
\<close>

definition boundary_acf ::
  "real list \<Rightarrow> npfloat list \<Rightarrow> interval \<Rightarrow> real \<Rightarrow> int \<Rightarrow> int
     \<Rightarrow> error + (real list \<times> real list \<times> real list \<times> real list)" where
  "boundary_acf t f iv smooth window_length polyorder =
     Inr ([0, 1, 2, 3, 4, 5, 6], [10, 1, 9, 2, 7, 3, 1], [0, 1, 2, 3], [1, 3, 2, 1])"

definition lone_peak_acf ::
  "real list \<Rightarrow> npfloat list \<Rightarrow> interval \<Rightarrow> real \<Rightarrow> int \<Rightarrow> int
     \<Rightarrow> error + (real list \<times> real list \<times> real list \<times> real list)" where
  "lone_peak_acf t f iv smooth window_length polyorder =
     Inr ([0, 1, 2, 3, 4], [10, 1, 9, 2, 1], [0, 1, 2, 3], [1, 3, 2, 1])"

section \<open>Properties of the numpy primitives\<close>

lemma count_finite_le: "sum_list (map (\<lambda>x. if isfinite x then 1 else 0) xs) \<le> length xs"
  by (induction xs) auto

lemma count_finite_eq:
  "(length xs = sum_list (map (\<lambda>x. if isfinite x then 1 else 0) xs)) = (\<forall>x\<in>set xs. isfinite x)"
proof (induction xs)
  case Nil
  then show ?case by simp
next
  case (Cons a xs)
  have le: "sum_list (map (\<lambda>x. if isfinite x then 1 else 0) xs) \<le> length xs"
    by (rule count_finite_le)
  show ?case using Cons le by auto
qed


lemma np_ge_nan [simp]: "np_ge NaN y = False"
  by (simp add: np_ge_def)

lemma np_less_irrefl [simp]: "\<not> np_less x x"
  by (cases x) auto

lemma np_less_not_nan: "np_less x y \<Longrightarrow> \<not> isnan x \<and> \<not> isnan y"
  by (cases x; cases y) auto






lemma np_argmin_Inr: "xs \<noteq> [] \<Longrightarrow> \<exists>i. np_argmin xs = Inr i"
  by (cases xs) auto




section \<open>The orchestrator's operations\<close>

lemma ls_rotation_frame:
  "time (snd (ls_rotation L rm mn mx ifr ipw ilp)) = time rm \<and>
   flux (snd (ls_rotation L rm mn mx ifr ipw ilp)) = flux rm \<and>
   flux_err (snd (ls_rotation L rm mn mx ifr ipw ilp)) = flux_err rm"
  by (auto simp: ls_rotation_def set_freq_def Let_def
      split: sum.splits option.splits prod.splits list.splits if_splits)

lemma acf_rotation_frame:
  "time (snd (acf_rotation sa gp rm iv sm cu wl po)) = time rm \<and>
   flux (snd (acf_rotation sa gp rm iv sm cu wl po)) = flux rm \<and>
   flux_err (snd (acf_rotation sa gp rm iv sm cu wl po)) = flux_err rm"
  by (auto simp: acf_rotation_def Let_def
      split: sum.splits option.splits prod.splits list.splits if_splits)

lemma pdm_rotation_frame:
  "time (snd (pdm_rotation stat est cp rm grid nbins)) = time rm \<and>
   flux (snd (pdm_rotation stat est cp rm grid nbins)) = flux rm \<and>
   flux_err (snd (pdm_rotation stat est cp rm grid nbins)) = flux_err rm"
  by (auto simp: pdm_rotation_def Let_def
      split: sum.splits option.splits prod.splits list.splits if_splits)

lemma sample_model_simps:
  "time sample_model = [0, 1, 2, 3]"
  "flux sample_model = [Fin 1, Fin 3, Fin 2, Fin 1]"
  "flux_err sample_model = [Fin (1 / 10), Fin (1 / 10), Fin (1 / 10), Fin (1 / 10)]"
  "ls_period sample_model = None"
  "ls_power sample_model = None"
  by (simp_all add: sample_model_def init_def)

lemma nan_model_simps:
  "time nan_model = [0, 1, 2, 3]"
  "flux nan_model = [Fin 1, NaN, Fin 2, Fin 1]"
  "ls_period nan_model = None"
  "ls_power nan_model = None"
  by (simp_all add: nan_model_def init_def)

text \<open>
  C9. The light-curve arrays \<open>time\<close>, \<open>flux\<close> and \<open>flux_err\<close> of the object are the same after
  \<open>ls_rotation\<close>, \<open>acf_rotation\<close> and \<open>pdm_rotation\<close> as before, whatever the call returns or
  raises and whatever the imported functions compute: the operations write other
  attributes only. (The imported functions are values here; they get the arrays as
  arguments and cannot write to them.)
\<close>

theorem light_curve_unchanged:
  "(let rm' = snd (ls_rotation L rm mn mx ifr ipw ilp)
    in time rm' = time rm \<and> flux rm' = flux rm \<and> flux_err rm' = flux_err rm) \<and>
   (let rm' = snd (acf_rotation sa gp rm iv sm cu wl po)
    in time rm' = time rm \<and> flux rm' = flux rm \<and> flux_err rm' = flux_err rm) \<and>
   (let rm' = snd (pdm_rotation stat est cp rm grid nbins)
    in time rm' = time rm \<and> flux rm' = flux rm \<and> flux_err rm' = flux_err rm)"
  using ls_rotation_frame[of L rm mn mx ifr ipw ilp]
    acf_rotation_frame[of sa gp rm iv sm cu wl po]
    pdm_rotation_frame[of stat est cp rm grid nbins]
  by (simp add: Let_def)

theorem light_curve_unchanged_witness:
  "flux (snd (ls_rotation peaked_periodogram sample_model (1 / 2) 50 (Some [1, 2, 3]) (Some [0, 0, 0]) None))
     = [Fin 1, Fin 3, Fin 2, Fin 1] \<and>
   flux (snd (acf_rotation sample_acf get_peak_statistics sample_model (Named ''TESS'') 9 0 99 3))
     = [Fin 1, Fin 3, Fin 2, Fin 1] \<and>
   flux (snd (pdm_rotation symmetric_phi centre_fit calc_phase sample_model [1, 2, 3, 4] 10))
     = [Fin 1, Fin 3, Fin 2, Fin 1]"
  using light_curve_unchanged[where L = peaked_periodogram and rm = sample_model and mn = "1 / 2"
      and mx = 50 and ifr = "Some [1, 2, 3]" and ipw = "Some [0, 0, 0]" and ilp = None
      and sa = sample_acf and gp = get_peak_statistics and iv = "Named ''TESS''" and sm = 9
      and cu = 0 and wl = 99 and po = 3 and stat = symmetric_phi and est = centre_fit
      and cp = calc_phase and grid = "[1, 2, 3, 4]" and nbins = 10]
  by (simp add: Let_def sample_model_simps)

text \<open>
  C10, as amended. When \<open>input_ls_period\<close> is given and the frequency grid is set without
  error (both \<open>input_freq\<close> and \<open>input_power\<close> given, or \<open>min_period\<close> and \<open>max_period\<close> both
  non-zero), \<open>ls_rotation\<close> stores the given period, returns it unchanged and computes
  nothing else: the result does not depend on the flux or on the periodogram, and the
  stored power is the one passed in, if any.
\<close>

theorem ls_rotation_input_period:
  assumes "(ifr \<noteq> None \<and> ipw \<noteq> None) \<or> (mn \<noteq> 0 \<and> mx \<noteq> 0)"
  shows "\<exists>fr. ls_rotation L rm mn mx ifr ipw (Some p) =
           (Inr p, rm\<lparr>freq := Some fr,
                        ls_power := (if ifr \<noteq> None \<and> ipw \<noteq> None then ipw else ls_power rm),
                        ls_period := Some p\<rparr>)"
  using assms
  by (auto simp: ls_rotation_def set_freq_def Let_def split: option.splits)

theorem ls_rotation_input_period_witness:
  "ls_rotation peaked_periodogram nan_model (1 / 2) 50 (Some [1, 2, 3]) (Some [0, 0, 0]) (Some (Fin 5)) =
     (Inr (Fin 5), nan_model\<lparr>freq := Some [1, 2, 3], ls_power := Some [0, 0, 0], ls_period := Some (Fin 5)\<rparr>)
   \<and> list_ex isnan (flux nan_model)"
proof -
  have "\<exists>fr. ls_rotation peaked_periodogram nan_model (1 / 2) 50 (Some [1, 2, 3]) (Some [0, 0, 0]) (Some (Fin 5)) =
           (Inr (Fin 5), nan_model\<lparr>freq := Some fr,
                        ls_power := (if Some [1, 2, 3::real] \<noteq> None \<and> Some [0, 0, 0::real] \<noteq> None then Some [0, 0, 0] else ls_power nan_model),
                        ls_period := Some (Fin 5)\<rparr>)"
    by (rule ls_rotation_input_period) simp
  then show ?thesis
    by (simp add: ls_rotation_def set_freq_def nan_model_simps)
qed

text \<open>
  With \<open>max_period = 0\<close> and no frequency grid passed in, line 94 divides by zero before the
  given period is looked at: the call raises and stores no period.
\<close>

theorem ls_rotation_input_period_zero_max_period:
  "fst (ls_rotation peaked_periodogram sample_model (1 / 2) 0 None None (Some (Fin 5))) = Inl ZeroDivisionError \<and>
   ls_period (snd (ls_rotation peaked_periodogram sample_model (1 / 2) 0 None None (Some (Fin 5)))) = None"
  by (simp add: ls_rotation_def set_freq_def sample_model_simps)

lemma eval_grid_Inr:
  "eval_grid f g = Inr ph \<Longrightarrow> length ph = length g \<and> (\<forall>i<length g. f (g ! i) = Inr (ph ! i))"
proof (induction g arbitrary: ph)
  case Nil
  then show ?case by simp
next
  case (Cons p ps)
  from Cons.prems obtain v vs where v: "f p = Inr v" and vs: "eval_grid f ps = Inr vs"
    and ph: "ph = v # vs"
    by (auto split: sum.splits)
  have "length vs = length ps \<and> (\<forall>i<length ps. f (ps ! i) = Inr (vs ! i))"
    using Cons.IH[OF vs] .
  then show ?case using v ph by (auto simp: nth_Cons split: nat.splits)
qed

lemma eval_grid_total:
  "\<forall>p\<in>set g. \<exists>v. f p = Inr v \<Longrightarrow> \<exists>ph. eval_grid f g = Inr ph"
  by (induction g) auto

lemma eval_grid_first_error:
  "\<forall>q\<in>set pre. \<exists>v. f q = Inr v \<Longrightarrow> f p = Inl e \<Longrightarrow> eval_grid f (pre @ p # post) = Inl e"
  by (induction pre) auto

lemma set_freq_frame:
  "set_freq rm mn mx ifr ipw = Inr (fr, rm1) \<Longrightarrow>
     time rm1 = time rm \<and> flux rm1 = flux rm \<and> ls_period rm1 = ls_period rm"
  by (auto simp: set_freq_def Let_def split: option.splits if_splits)

lemma acf_rotation_no_peak:
  assumes "sa (time rm) (flux rm) (named_interval iv) sm wl po = Inr (lgs, ac, x, y)"
    and "fst (gp (select lgs (map (\<lambda>l. cu < l) lgs)) (select ac (map (\<lambda>l. cu < l) lgs)) ''height'') = []"
  shows "fst (acf_rotation sa gp rm iv sm cu wl po) = Inl IndexError"
  using assms by (auto simp: acf_rotation_def Let_def split: prod.splits list.splits)





section \<open>Peaks\<close>

lemma find_peaks_set:
  "set (find_peaks n y) = {i. 1 \<le> i \<and> i + 1 < n \<and> y ! (i - 1) < y ! i \<and> y ! (i + 1) < y ! i}"
  by (auto simp: find_peaks_def)

lemma rising_chain:
  fixes f :: "nat \<Rightarrow> real"
  shows "\<forall>i<k. f i < f (Suc i) \<Longrightarrow> j \<le> k \<Longrightarrow> f j \<le> f k"
proof (induction k)
  case 0
  then show ?case by simp
next
  case (Suc k)
  show ?case
  proof (cases "j = Suc k")
    case True
    then show ?thesis by simp
  next
    case False
    then have "j \<le> k" using Suc.prems(2) by simp
    moreover have "\<forall>i<k. f i < f (Suc i)" using Suc.prems(1) by simp
    ultimately have "f j \<le> f k" using Suc.IH by blast
    moreover have "f k < f (Suc k)" using Suc.prems(1) by simp
    ultimately show ?thesis by simp
  qed
qed

lemma falling_chain:
  fixes f :: "nat \<Rightarrow> real"
  shows "\<forall>i. k \<le> i \<and> Suc i < n \<longrightarrow> f (Suc i) < f i \<Longrightarrow> k \<le> j \<Longrightarrow> j < n \<Longrightarrow> f j \<le> f k"
proof (induction j)
  case 0
  then show ?case by simp
next
  case (Suc j)
  show ?case
  proof (cases "k = Suc j")
    case True
    then show ?thesis by simp
  next
    case False
    then have kj: "k \<le> j" using Suc.prems(2) by simp
    have "f j \<le> f k" using Suc.IH[OF Suc.prems(1) kj] Suc.prems(3) by simp
    moreover have "f (Suc j) < f j" using Suc.prems(1,3) kj by simp
    ultimately show ?thesis by simp
  qed
qed

lemma find_peaks_single:
  assumes k: "1 \<le> k" "k + 1 < n"
    and up: "\<forall>i<k. y ! i < y ! Suc i"
    and down: "\<forall>i. k \<le> i \<and> Suc i < n \<longrightarrow> y ! Suc i < y ! i"
  shows "find_peaks n y = [k]"
proof -
  let ?P = "\<lambda>i. y ! (i - 1) < y ! i \<and> y ! (i + 1) < y ! i"
  have split: "[1..<n - 1] = [1..<k] @ k # [Suc k..<n - 1]"
  proof -
    have "[1..<n - 1] = [1..<k] @ [k..<n - 1]"
      using k upt_add_eq_append[of 1 k "n - 1 - k"] by simp
    moreover have "[k..<n - 1] = k # [Suc k..<n - 1]"
      using k by (simp add: upt_conv_Cons)
    ultimately show ?thesis by simp
  qed
  have before: "filter ?P [1..<k] = []"
  proof -
    have "\<And>i. i \<in> set [1..<k] \<Longrightarrow> \<not> ?P i"
    proof -
      fix i assume "i \<in> set [1..<k]"
      then have "i < k" by simp
      then have "y ! i < y ! Suc i" using up by simp
      then show "\<not> ?P i" by simp
    qed
    then show ?thesis by (simp add: filter_empty_conv)
  qed
  have after: "filter ?P [Suc k..<n - 1] = []"
  proof -
    have "\<And>i. i \<in> set [Suc k..<n - 1] \<Longrightarrow> \<not> ?P i"
    proof -
      fix i assume "i \<in> set [Suc k..<n - 1]"
      then have i: "Suc k \<le> i" "i < n - 1" by simp_all
      then have "k \<le> i - 1 \<and> Suc (i - 1) < n" by arith
      then have "y ! Suc (i - 1) < y ! (i - 1)" using down by blast
      moreover have "Suc (i - 1) = i" using i by arith
      ultimately show "\<not> ?P i" by simp
    qed
    then show ?thesis by (simp add: filter_empty_conv)
  qed
  have at: "?P k"
  proof -
    have "k - 1 < k" using k by arith
    then have "y ! (k - 1) < y ! Suc (k - 1)" using up by blast
    moreover have "Suc (k - 1) = k" using k by arith
    moreover have "y ! Suc k < y ! k" using down k by simp
    ultimately show ?thesis by simp
  qed
  show ?thesis
    unfolding find_peaks_def split using before after at by simp
qed

text \<open>
  C4. On a sampled curve \<open>y\<close> of length \<open>n \<ge> 3\<close> the peak indices computed by lines 107-108 are
  exactly the indices \<open>i\<close> with \<open>1 \<le> i \<le> n - 2\<close>, \<open>y[i-1] < y[i]\<close> and \<open>y[i+1] < y[i]\<close>. The two
  boundary indices are never among them, nor is either end of a flat step. A strictly
  increasing and a strictly decreasing curve have no peak; a curve strictly increasing up
  to an inner index \<open>k\<close> and strictly decreasing after it has the single peak \<open>k\<close>, where the
  curve is maximal.
\<close>

theorem peaks_are_strict_local_maxima:
  assumes "3 \<le> length y"
  shows "(\<forall>i\<in>set (find_peaks (length y) y).
            1 \<le> i \<and> i \<le> length y - 2 \<and> y ! (i - 1) < y ! i \<and> y ! (i + 1) < y ! i) \<and>
         (\<forall>i. 1 \<le> i \<and> i \<le> length y - 2 \<and> y ! (i - 1) < y ! i \<and> y ! (i + 1) < y ! i
            \<longrightarrow> i \<in> set (find_peaks (length y) y)) \<and>
         0 \<notin> set (find_peaks (length y) y) \<and>
         length y - 1 \<notin> set (find_peaks (length y) y) \<and>
         (\<forall>i. Suc i < length y \<and> y ! i = y ! Suc i
            \<longrightarrow> i \<notin> set (find_peaks (length y) y) \<and> Suc i \<notin> set (find_peaks (length y) y)) \<and>
         ((\<forall>i. Suc i < length y \<longrightarrow> y ! i < y ! Suc i) \<longrightarrow> find_peaks (length y) y = []) \<and>
         ((\<forall>i. Suc i < length y \<longrightarrow> y ! Suc i < y ! i) \<longrightarrow> find_peaks (length y) y = []) \<and>
         (\<forall>k. 1 \<le> k \<and> k \<le> length y - 2 \<and> (\<forall>i<k. y ! i < y ! Suc i) \<and>
              (\<forall>i. k \<le> i \<and> Suc i < length y \<longrightarrow> y ! Suc i < y ! i)
            \<longrightarrow> find_peaks (length y) y = [k] \<and> (\<forall>j<length y. y ! j \<le> y ! k))"
proof -
  let ?pk = "find_peaks (length y) y"
  have mem: "\<And>i. (i \<in> set ?pk) =
      (1 \<le> i \<and> i + 1 < length y \<and> y ! (i - 1) < y ! i \<and> y ! (i + 1) < y ! i)"
    by (simp add: find_peaks_set)
  have a: "\<forall>i\<in>set ?pk. 1 \<le> i \<and> i \<le> length y - 2 \<and> y ! (i - 1) < y ! i \<and> y ! (i + 1) < y ! i"
  proof
    fix i assume "i \<in> set ?pk"
    then have i: "1 \<le> i \<and> i + 1 < length y \<and> y ! (i - 1) < y ! i \<and> y ! (i + 1) < y ! i"
      by (simp only: mem)
    then have "i \<le> length y - 2" by arith
    then show "1 \<le> i \<and> i \<le> length y - 2 \<and> y ! (i - 1) < y ! i \<and> y ! (i + 1) < y ! i"
      using i by blast
  qed
  have b: "\<forall>i. 1 \<le> i \<and> i \<le> length y - 2 \<and> y ! (i - 1) < y ! i \<and> y ! (i + 1) < y ! i
            \<longrightarrow> i \<in> set ?pk"
  proof (intro allI impI)
    fix i
    assume i: "1 \<le> i \<and> i \<le> length y - 2 \<and> y ! (i - 1) < y ! i \<and> y ! (i + 1) < y ! i"
    then have "i + 1 < length y" using assms by arith
    then have "1 \<le> i \<and> i + 1 < length y \<and> y ! (i - 1) < y ! i \<and> y ! (i + 1) < y ! i"
      using i by blast
    then show "i \<in> set ?pk" by (simp only: mem)
  qed
  have c: "0 \<notin> set ?pk" by (simp add: find_peaks_set)
  have d: "length y - 1 \<notin> set ?pk"
  proof
    assume "length y - 1 \<in> set ?pk"
    then have "length y - 1 + 1 < length y" by (simp only: mem)
    then show False by arith
  qed
  have e: "\<forall>i. Suc i < length y \<and> y ! i = y ! Suc i \<longrightarrow> i \<notin> set ?pk \<and> Suc i \<notin> set ?pk"
  proof (intro allI impI)
    fix i assume i: "Suc i < length y \<and> y ! i = y ! Suc i"
    have "i \<notin> set ?pk"
    proof
      assume "i \<in> set ?pk"
      then have "y ! (i + 1) < y ! i" by (simp only: mem)
      then show False using i by simp
    qed
    moreover have "Suc i \<notin> set ?pk"
    proof
      assume "Suc i \<in> set ?pk"
      then have "y ! (Suc i - 1) < y ! Suc i" by (simp only: mem)
      then show False using i by simp
    qed
    ultimately show "i \<notin> set ?pk \<and> Suc i \<notin> set ?pk" by blast
  qed
  have f: "(\<forall>i. Suc i < length y \<longrightarrow> y ! i < y ! Suc i) \<longrightarrow> ?pk = []"
  proof
    assume inc: "\<forall>i. Suc i < length y \<longrightarrow> y ! i < y ! Suc i"
    have "\<And>i. i \<notin> set ?pk"
    proof
      fix i assume "i \<in> set ?pk"
      then have i: "i + 1 < length y" "y ! (i + 1) < y ! i" by (simp_all only: mem)
      then have "y ! i < y ! Suc i" using inc by simp
      then show False using i by simp
    qed
    then show "?pk = []" by (cases ?pk) auto
  qed
  have g: "(\<forall>i. Suc i < length y \<longrightarrow> y ! Suc i < y ! i) \<longrightarrow> ?pk = []"
  proof
    assume dec: "\<forall>i. Suc i < length y \<longrightarrow> y ! Suc i < y ! i"
    have "\<And>i. i \<notin> set ?pk"
    proof
      fix i assume "i \<in> set ?pk"
      then have i: "1 \<le> i" "i + 1 < length y" "y ! (i - 1) < y ! i" by (simp_all only: mem)
      then have "Suc (i - 1) < length y" by arith
      then have "y ! Suc (i - 1) < y ! (i - 1)" using dec by blast
      moreover have "Suc (i - 1) = i" using i by arith
      ultimately show False using i by simp
    qed
    then show "?pk = []" by (cases ?pk) auto
  qed
  have h: "\<forall>k. 1 \<le> k \<and> k \<le> length y - 2 \<and> (\<forall>i<k. y ! i < y ! Suc i) \<and>
              (\<forall>i. k \<le> i \<and> Suc i < length y \<longrightarrow> y ! Suc i < y ! i)
            \<longrightarrow> ?pk = [k] \<and> (\<forall>j<length y. y ! j \<le> y ! k)"
  proof (intro allI impI)
    fix k
    assume hk: "1 \<le> k \<and> k \<le> length y - 2 \<and> (\<forall>i<k. y ! i < y ! Suc i) \<and>
              (\<forall>i. k \<le> i \<and> Suc i < length y \<longrightarrow> y ! Suc i < y ! i)"
    then have k: "1 \<le> k" "k + 1 < length y" using assms by arith+
    have up: "\<forall>i<k. y ! i < y ! Suc i" using hk by blast
    have down: "\<forall>i. k \<le> i \<and> Suc i < length y \<longrightarrow> y ! Suc i < y ! i" using hk by blast
    have single: "?pk = [k]"
      by (rule find_peaks_single[OF k up down])
    have top: "\<forall>j<length y. y ! j \<le> y ! k"
    proof (intro allI impI)
      fix j assume j: "j < length y"
      show "y ! j \<le> y ! k"
      proof (cases "j \<le> k")
        case True
        then show ?thesis using rising_chain[of k "\<lambda>i. y ! i" j, OF up] by simp
      next
        case False
        then have "k \<le> j" by simp
        then show ?thesis using falling_chain[of k "length y" "\<lambda>i. y ! i" j, OF down] j by simp
      qed
    qed
    show "?pk = [k] \<and> (\<forall>j<length y. y ! j \<le> y ! k)" using single top by simp
  qed
  show ?thesis
    by (intro conjI) (rule a, rule b, rule c, rule d, rule e, rule f, rule g, rule h)
qed

theorem peaks_are_strict_local_maxima_witness:
  "3 \<le> length [1, 3, 2, 1::real] \<and> find_peaks (length [1, 3, 2, 1::real]) [1, 3, 2, 1] = [1] \<and>
   find_peaks (length [1, 2, 3, 4::real]) [1, 2, 3, 4] = [] \<and>
   find_peaks (length [1, 2, 2, 1::real]) [1, 2, 2, 1] = []"
proof -
  have n: "3 \<le> length [1, 3, 2, 1::real]" by simp
  have up: "\<forall>i<1. [1, 3, 2, 1::real] ! i < [1, 3, 2, 1] ! Suc i" by simp
  have down: "\<forall>i. 1 \<le> i \<and> Suc i < length [1, 3, 2, 1::real]
      \<longrightarrow> [1, 3, 2, 1::real] ! Suc i < [1, 3, 2, 1] ! i"
  proof (intro allI impI)
    fix i :: nat assume "1 \<le> i \<and> Suc i < length [1, 3, 2, 1::real]"
    then have "i = 1 \<or> i = 2" by auto
    then show "[1, 3, 2, 1::real] ! Suc i < [1, 3, 2, 1] ! i" by auto
  qed
  note t = peaks_are_strict_local_maxima[OF n]
  note single = t[THEN conjunct2, THEN conjunct2, THEN conjunct2, THEN conjunct2,
      THEN conjunct2, THEN conjunct2, THEN conjunct2, THEN spec, of 1, THEN mp, THEN conjunct1]
  have one: "find_peaks (length [1, 3, 2, 1::real]) [1, 3, 2, 1] = [1]"
    by (rule single) (use up down in simp)
  have inc: "\<forall>i. Suc i < length [1, 2, 3, 4::real] \<longrightarrow> [1, 2, 3, 4::real] ! i < [1, 2, 3, 4] ! Suc i"
  proof (intro allI impI)
    fix i :: nat assume "Suc i < length [1, 2, 3, 4::real]"
    then have "i = 0 \<or> i = 1 \<or> i = 2" by auto
    then show "[1, 2, 3, 4::real] ! i < [1, 2, 3, 4] ! Suc i" by auto
  qed
  have n4: "3 \<le> length [1, 2, 3, 4::real]" by simp
  note t4 = peaks_are_strict_local_maxima[OF n4]
  have none: "find_peaks (length [1, 2, 3, 4::real]) [1, 2, 3, 4] = []"
    by (rule t4[THEN conjunct2, THEN conjunct2, THEN conjunct2, THEN conjunct2,
      THEN conjunct2, THEN conjunct1, THEN mp]) (rule inc)
  have flat: "find_peaks (length [1, 2, 2, 1::real]) [1, 2, 2, 1] = []"
    by (simp add: find_peaks_def upt_rec)
  show ?thesis using n one none flat by simp
qed

section \<open>The imported functions\<close>

lemma select_map: "select xs (map P xs) = filter P xs"
  by (induction xs) (auto simp: select_def)

lemma length_select: "length xs = length ys \<Longrightarrow> length (select xs m) = length (select ys m)"
proof (induction xs ys arbitrary: m rule: list_induct2)
  case Nil
  then show ?case by (simp add: select_def)
next
  case (Cons x xs y ys)
  show ?case
  proof (cases m)
    case Nil
    then show ?thesis by (simp add: select_def)
  next
    case (Cons b bs)
    then show ?thesis using Cons.IH[of bs] by (simp add: select_def)
  qed
qed

lemma hd_sort_key_least:
  fixes f :: "'a \<Rightarrow> 'b::linorder"
  assumes "xs \<noteq> []"
  shows "hd (sort_key f xs) \<in> set xs \<and> (\<forall>z\<in>set xs. f (hd (sort_key f xs)) \<le> f z)"
proof -
  have ne: "sort_key f xs \<noteq> []" using assms by (metis length_0_conv length_sort)
  then obtain a as where as: "sort_key f xs = a # as" by (cases "sort_key f xs") auto
  have "sorted (map f (a # as))" using sorted_sort_key[of f xs] as by simp
  then have "\<forall>z\<in>set (a # as). f a \<le> f z" by auto
  moreover have "set (a # as) = set xs" using set_sort[of f xs] as by simp
  ultimately show ?thesis using as by auto
qed

lemma height_key_le:
  "(height_key p \<le> height_key q) = (snd q < snd p \<or> (snd q = snd p \<and> fst p \<le> fst q))"
  by (auto simp: height_key_def less_eq_prod_def)

lemma get_peak_statistics_height_head:
  assumes "find_peaks (length y) y \<noteq> []"
  shows "\<exists>k\<in>set (find_peaks (length y) y). \<exists>rest.
           fst (get_peak_statistics x y ''height'') = x ! k # rest \<and>
           (\<forall>j\<in>set (find_peaks (length y) y).
              y ! j < y ! k \<or> (y ! j = y ! k \<and> x ! k \<le> x ! j))"
proof -
  let ?pk = "map (\<lambda>i. (x ! i, y ! i)) (find_peaks (length y) y)"
  let ?r = "sort_key height_key ?pk"
  have ne: "?pk \<noteq> []" using assms by simp
  have hd: "hd ?r \<in> set ?pk \<and> (\<forall>z\<in>set ?pk. height_key (hd ?r) \<le> height_key z)"
    by (rule hd_sort_key_least[OF ne])
  then obtain k where k: "k \<in> set (find_peaks (length y) y)" and hk: "hd ?r = (x ! k, y ! k)"
    by auto
  have rne: "?r \<noteq> []" using ne by (metis length_0_conv length_sort)
  then obtain rest where r: "?r = (x ! k, y ! k) # rest"
    using hk by (cases ?r) auto
  have first: "fst (get_peak_statistics x y ''height'') = x ! k # map fst rest"
    using r by (simp add: get_peak_statistics_def Let_def)
  have best: "\<forall>j\<in>set (find_peaks (length y) y).
              y ! j < y ! k \<or> (y ! j = y ! k \<and> x ! k \<le> x ! j)"
  proof
    fix j assume "j \<in> set (find_peaks (length y) y)"
    then have "(x ! j, y ! j) \<in> set ?pk" by auto
    then have "height_key (x ! k, y ! k) \<le> height_key (x ! j, y ! j)"
      using hd hk by auto
    then show "y ! j < y ! k \<or> (y ! j = y ! k \<and> x ! k \<le> x ! j)"
      by (simp add: height_key_le)
  qed
  show ?thesis using k first best by blast
qed

text \<open>
  C5, as amended. Let the autocorrelation curve be cut to the lags above \<open>cutoff\<close>, as lines
  168 and 169 do before the peaks are extracted. If the cut curve has a peak, \<open>acf_rotation\<close>
  returns (and stores as \<open>acf_period\<close>) the lag of a peak \<open>k\<close> of the cut curve that ranks
  first: every peak of the cut curve is lower than \<open>k\<close>, or as high and at a lag not below the
  lag of \<open>k\<close>. The returned lag is above the cutoff. The first sample above the cutoff is a
  boundary of the cut curve and is never its peak.
\<close>

theorem acf_rotation_tallest_peak:
  assumes sa: "sa (time rm) (flux rm) (named_interval iv) sm wl po = Inr (lgs, ac, x, y)"
    and len: "length ac = length lgs"
    and lgm: "lgm = select lgs (map (\<lambda>l. cu < l) lgs)"
    and acm: "acm = select ac (map (\<lambda>l. cu < l) lgs)"
    and pk: "find_peaks (length acm) acm \<noteq> []"
  shows "\<exists>k\<in>set (find_peaks (length acm) acm).
           fst (acf_rotation sa get_peak_statistics rm iv sm cu wl po) = Inr (lgm ! k) \<and>
           acf_period (snd (acf_rotation sa get_peak_statistics rm iv sm cu wl po)) = Some (lgm ! k) \<and>
           cu < lgm ! k \<and> 0 < k \<and> k + 1 < length lgm \<and>
           (\<forall>j\<in>set (find_peaks (length acm) acm).
              acm ! j < acm ! k \<or> (acm ! j = acm ! k \<and> lgm ! k \<le> lgm ! j))"
proof -
  obtain k rest where k: "k \<in> set (find_peaks (length acm) acm)"
    and first: "fst (get_peak_statistics lgm acm ''height'') = lgm ! k # rest"
    and best: "\<forall>j\<in>set (find_peaks (length acm) acm).
              acm ! j < acm ! k \<or> (acm ! j = acm ! k \<and> lgm ! k \<le> lgm ! j)"
    using get_peak_statistics_height_head[OF pk, of lgm] by blast
  obtain yp where gp: "get_peak_statistics lgm acm ''height'' = (lgm ! k # rest, yp)"
    using first by (cases "get_peak_statistics lgm acm ''height''") auto
  have run: "acf_rotation sa get_peak_statistics rm iv sm cu wl po =
      (Inr (lgm ! k), rm\<lparr>acf_x := Some x, acf_y := Some y, lags := Some lgm, acf := Some acm,
                             acf_period := Some (lgm ! k)\<rparr>)"
    using sa len gp lgm acm by (simp add: acf_rotation_def Let_def)
  have "length lgm = length acm"
    using length_select[of lgs ac "map (\<lambda>l. cu < l) lgs"] len lgm acm by simp
  moreover have inner: "1 \<le> k \<and> k + 1 < length acm" using k by (simp add: find_peaks_set)
  ultimately have bounds: "0 < k \<and> k + 1 < length lgm" by simp
  then have "k < length lgm" by simp
  then have "lgm ! k \<in> set lgm" by simp
  moreover have "lgm = filter (\<lambda>l. cu < l) lgs" using lgm by (simp add: select_map)
  ultimately have above: "cu < lgm ! k" by auto
  show ?thesis using k run above bounds best by auto
qed

lemma sample_acf_cut:
  "select [0, 1, 2, 3, 4, 5, 6] (map (\<lambda>l. 0 < l) [0, 1, 2, 3, 4, 5, 6::real]) = [1, 2, 3, 4, 5, 6::real]"
  "select [10, 1, 5, 2, 7, 3, 1] (map (\<lambda>l. 0 < l) [0, 1, 2, 3, 4, 5, 6::real]) = [1, 5, 2, 7, 3, 1::real]"
  by (simp_all add: select_def)

lemma sample_acf_peaks:
  "find_peaks (length [1, 5, 2, 7, 3, 1::real]) [1, 5, 2, 7, 3, 1] = [1, 3]"
  by (simp add: find_peaks_def upt_rec)

theorem acf_rotation_tallest_peak_witness:
  "fst (acf_rotation sample_acf get_peak_statistics sample_model (Named ''TESS'') 9 0 99 3) = Inr 4 \<and>
   find_peaks (length [1, 5, 2, 7, 3, 1::real]) [1, 5, 2, 7, 3, 1] = [1, 3]"
proof -
  have sa: "sample_acf (time sample_model) (flux sample_model) (named_interval (Named ''TESS'')) 9 99 3
      = Inr ([0, 1, 2, 3, 4, 5, 6], [10, 1, 5, 2, 7, 3, 1], [0, 1, 2, 3], [1, 3, 2, 1])"
    by (simp add: sample_acf_def)
  have len: "length [10, 1, 5, 2, 7, 3, 1::real] = length [0, 1, 2, 3, 4, 5, 6::real]" by simp
  have pk: "find_peaks (length [1, 5, 2, 7, 3, 1::real]) [1, 5, 2, 7, 3, 1] \<noteq> []"
    by (simp only: sample_acf_peaks) simp
  obtain k where k: "k \<in> set (find_peaks (length [1, 5, 2, 7, 3, 1::real]) [1, 5, 2, 7, 3, 1])"
    and r: "fst (acf_rotation sample_acf get_peak_statistics sample_model (Named ''TESS'') 9 0 99 3)
        = Inr ([1, 2, 3, 4, 5, 6] ! k)"
    and b: "\<forall>j\<in>set (find_peaks (length [1, 5, 2, 7, 3, 1::real]) [1, 5, 2, 7, 3, 1]).
        [1, 5, 2, 7, 3, 1::real] ! j < [1, 5, 2, 7, 3, 1] ! k \<or>
        ([1, 5, 2, 7, 3, 1::real] ! j = [1, 5, 2, 7, 3, 1] ! k \<and>
         [1, 2, 3, 4, 5, 6::real] ! k \<le> [1, 2, 3, 4, 5, 6] ! j)"
    using acf_rotation_tallest_peak[where sa = sample_acf and rm = sample_model
        and iv = "Named ''TESS''" and sm = 9 and wl = 99 and po = 3 and cu = 0,
        OF sa len sample_acf_cut(1)[symmetric] sample_acf_cut(2)[symmetric] pk] by blast
  have "k = 1 \<or> k = 3" using k by (simp only: sample_acf_peaks) simp
  moreover have "k \<noteq> 1"
  proof
    assume "k = 1"
    moreover have "3 \<in> set (find_peaks (length [1, 5, 2, 7, 3, 1::real]) [1, 5, 2, 7, 3, 1])"
      by (simp only: sample_acf_peaks) simp
    ultimately have "[1, 5, 2, 7, 3, 1::real] ! 3 < [1, 5, 2, 7, 3, 1] ! 1 \<or>
        ([1, 5, 2, 7, 3, 1::real] ! 3 = [1, 5, 2, 7, 3, 1] ! 1 \<and>
         [1, 2, 3, 4, 5, 6::real] ! 1 \<le> [1, 2, 3, 4, 5, 6] ! 3)"
      using b by blast
    then show False by simp
  qed
  ultimately have "k = 3" by blast
  then have "fst (acf_rotation sample_acf get_peak_statistics sample_model (Named ''TESS'') 9 0 99 3) = Inr 4"
    using r by simp
  then show ?thesis using sample_acf_peaks by (rule conjI)
qed

text \<open>
  With the cutoff 1 the local maximum at the lag 2 becomes the first sample of the cut curve.
  On the first curve the call returns the lag 4, of height 7, although the lag 2 is above
  the cutoff and its local maximum is of height 9. On the second curve the cut curve has no
  peak and the call raises IndexError, although the lag 2 is a local maximum above the
  cutoff.
\<close>

theorem tallest_peak_past_cutoff_missed:
  "fst (acf_rotation boundary_acf get_peak_statistics sample_model (Days (1 / 50)) 9 1 99 3) = Inr 4 \<and>
   2 \<in> set (find_peaks (length [10, 1, 9, 2, 7, 3, 1::real]) [10, 1, 9, 2, 7, 3, 1]) \<and>
   (1::real) < [0, 1, 2, 3, 4, 5, 6] ! 2 \<and>
   ([10, 1, 9, 2, 7, 3, 1] ! 4 :: real) < [10, 1, 9, 2, 7, 3, 1] ! 2 \<and>
   fst (acf_rotation lone_peak_acf get_peak_statistics sample_model (Days (1 / 50)) 9 1 99 3)
     = Inl IndexError \<and>
   2 \<in> set (find_peaks (length [10, 1, 9, 2, 1::real]) [10, 1, 9, 2, 1]) \<and>
   (1::real) < [0, 1, 2, 3, 4] ! 2"
proof -
  have g1: "get_peak_statistics [2, 3, 4, 5, 6] [9, 2, 7, 3, 1] ''height'' = ([4], [7])"
    by (simp add: get_peak_statistics_def find_peaks_def upt_rec Let_def)
  have g2: "get_peak_statistics [2, 3, 4] [9, 2, 1] ''height'' = ([], [])"
    by (simp add: get_peak_statistics_def find_peaks_def upt_rec Let_def)
  have a: "fst (acf_rotation boundary_acf get_peak_statistics sample_model (Days (1 / 50)) 9 1 99 3) = Inr 4"
    by (simp add: acf_rotation_def boundary_acf_def select_def g1)
  have b: "2 \<in> set (find_peaks (length [10, 1, 9, 2, 7, 3, 1::real]) [10, 1, 9, 2, 7, 3, 1])"
    by (simp add: find_peaks_def upt_rec)
  have c: "(1::real) < [0, 1, 2, 3, 4, 5, 6] ! 2" by simp
  have d: "([10, 1, 9, 2, 7, 3, 1] ! 4 :: real) < [10, 1, 9, 2, 7, 3, 1] ! 2" by simp
  have e: "fst (acf_rotation lone_peak_acf get_peak_statistics sample_model (Days (1 / 50)) 9 1 99 3)
     = Inl IndexError"
    by (simp add: acf_rotation_def lone_peak_acf_def select_def g2)
  have f: "2 \<in> set (find_peaks (length [10, 1, 9, 2, 1::real]) [10, 1, 9, 2, 1])"
    by (simp add: find_peaks_def upt_rec)
  have g: "(1::real) < [0, 1, 2, 3, 4] ! 2" by simp
  show ?thesis by (intro conjI) (rule a, rule b, rule c, rule d, rule e, rule f, rule g)
qed

lemma mod1_range: "0 \<le> mod1 v \<and> mod1 v < 1"
  unfolding mod1_def by linarith

text \<open>
  C8. For every time array and every period \<open>p > 0\<close> the fold returns an array of the same
  length whose entry \<open>i\<close> is \<open>((times[i] - times[0]) / p) mod 1\<close>, and every entry lies in
  \<open>[0, 1)\<close>.
\<close>

theorem calc_phase_contract:
  assumes "0 < p"
  shows "\<exists>ph. calc_phase p t = Inr ph \<and> length ph = length t \<and>
           (\<forall>i<length t. ph ! i = mod1 ((t ! i - t ! 0) / p) \<and> 0 \<le> ph ! i \<and> ph ! i < 1)"
proof (cases t)
  case Nil
  then show ?thesis using assms by (simp add: calc_phase_def)
next
  case (Cons t0 ts)
  have "calc_phase p t = Inr (map (\<lambda>ti. mod1 ((ti - t0) / p)) t)"
    using assms Cons by (simp add: calc_phase_def)
  moreover have "t ! 0 = t0" using Cons by simp
  ultimately show ?thesis using mod1_range by simp
qed

theorem calc_phase_contract_witness:
  "(0::real) < 10 \<and> calc_phase 10 [3, 1, 25, 13] = Inr [0, 4 / 5, 1 / 5, 0]"
proof -
  have p: "(0::real) < 10" by simp
  obtain ph where ph: "calc_phase 10 [3, 1, 25, 13] = Inr ph"
    using calc_phase_contract[OF p, of "[3, 1, 25, 13]"] by blast
  have "calc_phase 10 [3, 1, 25, 13] = Inr [0, 4 / 5, 1 / 5, 0]"
    by (simp add: calc_phase_def mod1_def)
  then show ?thesis using p ph by simp
qed

section \<open>The dispersion statistic\<close>

lemma phase_bins_parts:
  assumes "phase_bins nb ph x = (x_means, phase_bs, Ns, sj2s, x_binned, phase_binned)"
  shows "length Ns = nb" and "length sj2s = nb" and "length x_binned = nb"
    and "\<forall>j<nb. x_binned ! j = map snd (filter (\<lambda>pv. in_bin nb j (fst pv)) (zip ph x))"
    and "\<forall>j<nb. Ns ! j = length (x_binned ! j)"
    and "\<forall>j<nb. sj2s ! j = sj2 (x_binned ! j) (mean (x_binned ! j)) (Ns ! j)"
  using assms by (auto simp: phase_bins_def Let_def)

lemma sj2_single: "sj2 [v] (mean [v]) 1 = 0"
  by (simp add: sj2_def mean_def)

lemma pooled_numerator_sum:
  assumes "length nj = length vs"
  shows "pooled_numerator nj vs =
           (\<Sum>j<length nj. if nj ! j < 2 then 0 else (real (nj ! j) - 1) * vs ! j)"
proof -
  have "pooled_numerator nj vs =
      sum_list (map (\<lambda>j. if nj ! j < 2 then 0 else (real (nj ! j) - 1) * vs ! j) [0..<length nj])"
    unfolding pooled_numerator_def using assms
    by (intro arg_cong[where f = sum_list] nth_equalityI) auto
  also have "\<dots> = (\<Sum>j<length nj. if nj ! j < 2 then 0 else (real (nj ! j) - 1) * vs ! j)"
    by (simp add: interv_sum_list_conv_sum_set_nat atLeast0LessThan)
  finally show ?thesis .
qed

lemma occupied_card: "occupied Ns = card {j. j < length Ns \<and> 1 \<le> Ns ! j}"
  unfolding occupied_def by (simp add: length_filter_conv_card)

lemma phi_value:
  assumes "2 \<le> nbins" and "calc_phase p t = Inr ph"
    and "phase_bins (nat nbins) ph x = (x_means, phase_bs, Ns, sj2s, x_binned, phase_binned)"
  shows "phi nbins p t (map Fin x) =
           (if real (sum_list Ns) - real (occupied Ns) \<le> 0 then Inr NaN
            else Inr (Fin (s2 Ns sj2s (occupied Ns) / sj2 x (mean x) (length x))))"
proof -
  have fin: "\<not> list_ex (\<lambda>v. \<not> isfinite v) (map Fin x)"
    by (simp add: list_ex_iff)
  have unwrap: "map the_fin (map Fin x) = x"
    by (simp add: the_fin_def comp_def)
  show ?thesis
    using assms fin unwrap by (simp add: phi_def)
qed

text \<open>
  C3. With the flux folded at \<open>p\<close> and binned into \<open>nbins \<ge> 2\<close> bins: the variance of bin \<open>j\<close> is
  the sum of the squared deviations from the bin's own mean divided by the number \<open>n\<^sub>j\<close> of
  its points; a bin of one point has variance 0; \<open>M\<close> counts the bins with \<open>n\<^sub>j \<ge> 1\<close>; and,
  when \<open>\<Sum>\<^sub>j n\<^sub>j - M\<close> is positive, the statistic is the pooled variance
  \<open>\<Sum>\<^sub>j (n\<^sub>j - 1) sj2\<^sub>j / (\<Sum>\<^sub>j n\<^sub>j - M)\<close>, in which a bin of fewer than two points counts zero,
  divided by the population variance of the whole flux.
\<close>

theorem pooled_variance_formula:
  assumes "2 \<le> nbins" and "calc_phase p t = Inr ph"
    and "phase_bins (nat nbins) ph x = (x_means, phase_bs, Ns, sj2s, x_binned, phase_binned)"
  shows "(\<forall>j<nat nbins. Ns ! j = length (x_binned ! j) \<and>
            sj2s ! j = (\<Sum>v\<leftarrow>x_binned ! j. (v - mean (x_binned ! j)) * (v - mean (x_binned ! j)))
                        / real (Ns ! j)) \<and>
         (\<forall>j<nat nbins. Ns ! j = 1 \<longrightarrow> sj2s ! j = 0) \<and>
         occupied Ns = card {j. j < nat nbins \<and> 1 \<le> Ns ! j} \<and>
         (0 < real (sum_list Ns) - real (occupied Ns) \<longrightarrow>
            phi nbins p t (map Fin x) =
              Inr (Fin ((\<Sum>j<nat nbins. if Ns ! j < 2 then 0 else (real (Ns ! j) - 1) * sj2s ! j)
                        / (real (sum_list Ns) - real (occupied Ns))
                        / ((\<Sum>v\<leftarrow>x. (v - mean x) * (v - mean x)) / real (length x)))))"
proof -
  note parts = phase_bins_parts[OF assms(3)]
  have a: "\<forall>j<nat nbins. Ns ! j = length (x_binned ! j) \<and>
            sj2s ! j = (\<Sum>v\<leftarrow>x_binned ! j. (v - mean (x_binned ! j)) * (v - mean (x_binned ! j)))
                        / real (Ns ! j)"
    using parts(5,6) by (simp add: sj2_def)
  have b: "\<forall>j<nat nbins. Ns ! j = 1 \<longrightarrow> sj2s ! j = 0"
  proof (intro allI impI)
    fix j assume j: "j < nat nbins" and one: "Ns ! j = 1"
    then have "length (x_binned ! j) = 1" using parts(5) by simp
    then obtain v where v: "x_binned ! j = [v]"
      by (cases "x_binned ! j") auto
    have "sj2s ! j = sj2 (x_binned ! j) (mean (x_binned ! j)) (Ns ! j)"
      using parts(6) j by simp
    then show "sj2s ! j = 0" using v one sj2_single by simp
  qed
  have c: "occupied Ns = card {j. j < nat nbins \<and> 1 \<le> Ns ! j}"
    using occupied_card[of Ns] parts(1) by simp
  have d: "0 < real (sum_list Ns) - real (occupied Ns) \<longrightarrow>
            phi nbins p t (map Fin x) =
              Inr (Fin ((\<Sum>j<nat nbins. if Ns ! j < 2 then 0 else (real (Ns ! j) - 1) * sj2s ! j)
                        / (real (sum_list Ns) - real (occupied Ns))
                        / ((\<Sum>v\<leftarrow>x. (v - mean x) * (v - mean x)) / real (length x))))"
  proof
    assume pos: "0 < real (sum_list Ns) - real (occupied Ns)"
    have num: "pooled_numerator Ns sj2s =
        (\<Sum>j<nat nbins. if Ns ! j < 2 then 0 else (real (Ns ! j) - 1) * sj2s ! j)"
      using pooled_numerator_sum[of Ns sj2s] parts(1,2) by simp
    have "phi nbins p t (map Fin x) =
        Inr (Fin (s2 Ns sj2s (occupied Ns) / sj2 x (mean x) (length x)))"
      using phi_value[OF assms] pos by simp
    then show "phi nbins p t (map Fin x) =
              Inr (Fin ((\<Sum>j<nat nbins. if Ns ! j < 2 then 0 else (real (Ns ! j) - 1) * sj2s ! j)
                        / (real (sum_list Ns) - real (occupied Ns))
                        / ((\<Sum>v\<leftarrow>x. (v - mean x) * (v - mean x)) / real (length x))))"
      using num by (simp add: s2_def sj2_def)
  qed
  show ?thesis by (intro conjI) (rule a, rule b, rule c, rule d)
qed

lemma sample_fold: "calc_phase 10 [0, 1, 2, 6] = Inr [0, 1 / 10, 1 / 5, 3 / 5]"
  by (simp add: calc_phase_def mod1_def)

lemma sample_bins:
  "phase_bins (nat 2) [0, 1 / 10, 1 / 5, 3 / 5] [1, 2, 4, 5] =
     ([7 / 3, 5], [0, 1 / 2, 1], [3, 1], [14 / 9, 0], [[1, 2, 4], [5]], [[0, 1 / 10, 1 / 5], [3 / 5]])"
  by (simp add: phase_bins_def in_bin_def upt_rec mean_def sj2_def Let_def)

theorem pooled_variance_formula_witness:
  "phi 2 10 [0, 1, 2, 6] (map Fin [1, 2, 4, 5]) = Inr (Fin (28 / 45))"
proof -
  have two: "(2::int) \<le> 2" by simp
  note t = pooled_variance_formula[OF two sample_fold sample_bins,
      THEN conjunct2, THEN conjunct2, THEN conjunct2, THEN mp]
  have occ: "occupied [3, Suc 0] = 2" by (simp add: occupied_def)
  have pos: "0 < real (sum_list [3, 1]) - real (occupied [3, 1])"
    by (simp add: occupied_def)
  have "phi 2 10 [0, 1, 2, 6] (map Fin [1, 2, 4, 5]) =
      Inr (Fin ((\<Sum>j<nat 2. if [3, 1] ! j < (2::nat) then 0 else (real ([3, 1] ! j) - 1) * [14 / 9, 0] ! j)
                        / (real (sum_list [3, 1]) - real (occupied [3, 1]))
                        / ((\<Sum>v\<leftarrow>[1, 2, 4, 5]. (v - mean [1, 2, 4, 5]) * (v - mean [1, 2, 4, 5]))
                            / real (length [1, 2, 4, 5::real]))))"
    by (rule t[OF pos])
  moreover have "(\<Sum>j<nat 2. if [3, 1] ! j < (2::nat) then 0 else (real ([3, 1] ! j) - 1) * [14 / 9, 0] ! j)
      = (28 / 9 :: real)"
    by (simp add: lessThan_nat_numeral lessThan_Suc)
  moreover have "(\<Sum>v\<leftarrow>[1, 2, 4, 5]. (v - mean [1, 2, 4, 5]) * (v - mean [1, 2, 4, 5])) = (10::real)"
    by (simp add: mean_def)
  ultimately show ?thesis by (simp add: occ)
qed

section \<open>Invalid input and degenerate results\<close>


lemma pdm_rotation_profile:
  "eval_grid (\<lambda>p. stat nbins p (time rm) (flux rm)) grid = Inr ph \<Longrightarrow>
     phis (snd (pdm_rotation stat est cp rm grid nbins)) = Some ph"
  by (auto simp: pdm_rotation_def Let_def split: sum.splits prod.splits)



lemma calc_phase_returns: "0 < p \<Longrightarrow> \<exists>ph. calc_phase p t = Inr ph"
  by (cases t) (simp_all add: calc_phase_def)

lemma phi_returns:
  assumes "\<forall>v\<in>set x. isfinite v" and "2 \<le> nbins" and "0 < p"
  shows "\<exists>v. phi nbins p t x = Inr v"
proof -
  obtain ph where ph: "calc_phase p t = Inr ph" using calc_phase_returns[OF assms(3)] by blast
  obtain x_means phase_bs Ns sj2s x_binned phase_binned where
    "phase_bins (nat nbins) ph (map the_fin x) = (x_means, phase_bs, Ns, sj2s, x_binned, phase_binned)"
    by (cases "phase_bins (nat nbins) ph (map the_fin x)") auto
  then show ?thesis using assms(1,2) ph by (simp add: phi_def list_ex_iff)
qed






text \<open>
  C7, as amended. Finding no peak is not fatal in \<open>ls_rotation\<close>: the call completes, and it
  stores and returns the number 0 as the period. When the pooled-variance denominator
  \<open>\<Sum>\<^sub>j n\<^sub>j - M\<close> is \<open>\<le> 0\<close> at a trial period, \<open>phi\<close> does not raise: it yields the undefined statistic
  NaN, which is not the number 0. In a grid search of \<open>pdm_rotation\<close> on valid input (finite
  flux, \<open>nbins \<ge> 2\<close>, positive periods) every grid point is evaluated and the stored profile
  holds at each index what \<open>phi\<close> yields there, an undefined statistic included. Here \<open>phi\<close>
  is the function as the specification gives it.
\<close>

theorem degenerate_results_not_fatal:
  "((\<forall>v\<in>set (flux rm). isfinite v) \<and> set_freq rm mn mx ifr ipw = Inr (fr, rm1) \<and>
      find_peaks (length fr) (map (L (time rm) (flux rm)) fr) = [] \<longrightarrow>
        ls_rotation L rm mn mx ifr ipw None =
          (Inr (Fin 0), rm1\<lparr>ls_power := Some (map (L (time rm) (flux rm)) fr),
                               ls_period := Some (Fin 0)\<rparr>)) \<and>
   (2 \<le> nbins \<and> calc_phase p t = Inr ph \<and>
      phase_bins (nat nbins) ph x = (x_means, phase_bs, Ns, sj2s, x_binned, phase_binned) \<and>
      real (sum_list Ns) - real (occupied Ns) \<le> 0 \<longrightarrow>
        phi nbins p t (map Fin x) = Inr NaN \<and> NaN \<noteq> Fin 0) \<and>
   ((\<forall>v\<in>set (flux rm). isfinite v) \<and> 2 \<le> nbins \<and> (\<forall>q\<in>set grid. 0 < q) \<longrightarrow>
      (\<exists>pr. phis (snd (pdm_rotation phi est cp rm grid nbins)) = Some pr \<and>
            length pr = length grid \<and>
            (\<forall>i<length grid. phi nbins (grid ! i) (time rm) (flux rm) = Inr (pr ! i))))"
proof (intro conjI impI)
  assume a: "(\<forall>v\<in>set (flux rm). isfinite v) \<and> set_freq rm mn mx ifr ipw = Inr (fr, rm1) \<and>
      find_peaks (length fr) (map (L (time rm) (flux rm)) fr) = []"
  then have fl: "flux rm1 = flux rm" "time rm1 = time rm" using set_freq_frame by blast+
  have "length (flux rm) = sum_list (map (\<lambda>x. if isfinite x then 1 else 0) (flux rm))"
    using a count_finite_eq[of "flux rm"] by blast
  then show "ls_rotation L rm mn mx ifr ipw None =
          (Inr (Fin 0), rm1\<lparr>ls_power := Some (map (L (time rm) (flux rm)) fr),
                               ls_period := Some (Fin 0)\<rparr>)"
    using a fl by (simp add: ls_rotation_def Let_def)
next
  assume a: "2 \<le> nbins \<and> calc_phase p t = Inr ph \<and>
      phase_bins (nat nbins) ph x = (x_means, phase_bs, Ns, sj2s, x_binned, phase_binned) \<and>
      real (sum_list Ns) - real (occupied Ns) \<le> 0"
  have "phi nbins p t (map Fin x) =
           (if real (sum_list Ns) - real (occupied Ns) \<le> 0 then Inr NaN
            else Inr (Fin (s2 Ns sj2s (occupied Ns) / sj2 x (mean x) (length x))))"
    by (rule phi_value) (use a in auto)
  then show "phi nbins p t (map Fin x) = Inr NaN" using a by simp
next
  show "NaN \<noteq> Fin 0" by simp
next
  assume a: "(\<forall>v\<in>set (flux rm). isfinite v) \<and> 2 \<le> nbins \<and> (\<forall>q\<in>set grid. 0 < q)"
  have "\<forall>q\<in>set grid. \<exists>v. phi nbins q (time rm) (flux rm) = Inr v"
    using a phi_returns by blast
  then obtain pr where pr: "eval_grid (\<lambda>q. phi nbins q (time rm) (flux rm)) grid = Inr pr"
    using eval_grid_total[of grid "\<lambda>q. phi nbins q (time rm) (flux rm)"] by blast
  have st: "phis (snd (pdm_rotation phi est cp rm grid nbins)) = Some pr"
    by (rule pdm_rotation_profile[where stat = phi and rm = rm and nbins = nbins, OF pr])
  show "\<exists>pr. phis (snd (pdm_rotation phi est cp rm grid nbins)) = Some pr \<and>
            length pr = length grid \<and>
            (\<forall>i<length grid. phi nbins (grid ! i) (time rm) (flux rm) = Inr (pr ! i))"
    using st eval_grid_Inr[OF pr] by blast
qed

lemma phi_sample_4:
  "phi 4 4 [0, 1, 2, 3] [Fin 1, Fin 3, Fin 2, Fin 1] = Inr NaN"
  by (simp add: phi_def calc_phase_def mod1_def phase_bins_def in_bin_def occupied_def upt_rec)

lemma phi_sample_1:
  "phi 4 1 [0, 1, 2, 3] [Fin 1, Fin 3, Fin 2, Fin 1] = Inr (Fin 1)"
  by (simp add: phi_def calc_phase_def mod1_def phase_bins_def in_bin_def occupied_def upt_rec
      s2_def sj2_def pooled_numerator_def mean_def the_fin_def)

lemma diagonal_fold: "calc_phase 4 [0, 1, 2, 3] = Inr [0, 1 / 4, 1 / 2, 3 / 4]"
  by (simp add: calc_phase_def mod1_def)

lemma diagonal_bins:
  "phase_bins (nat 4) [0, 1 / 4, 1 / 2, 3 / 4] [1, 3, 2, 1] =
     ([1, 3, 2, 1], [0, 1 / 4, 1 / 2, 3 / 4, 1], [1, 1, 1, 1], [0, 0, 0, 0], [[1], [3], [2], [1]],
      [[0], [1 / 4], [1 / 2], [3 / 4]])"
  by (simp add: phase_bins_def in_bin_def upt_rec mean_def sj2_def Let_def)

theorem degenerate_results_not_fatal_witness:
  "fst (ls_rotation rising_periodogram sample_model (1 / 2) 50 (Some [1, 2, 3]) (Some [0, 0, 0]) None)
     = Inr (Fin 0) \<and>
   phi 4 4 [0, 1, 2, 3] (map Fin [1, 3, 2, 1]) = Inr NaN \<and>
   (\<exists>pr. phis (snd (pdm_rotation phi centre_fit calc_phase sample_model [1, 4] 4)) = Some pr \<and>
         length pr = 2 \<and> pr ! 0 = Fin 1 \<and> pr ! 1 = NaN)"
proof -
  have s: "set_freq sample_model (1 / 2) 50 (Some [1, 2, 3]) (Some [0, 0, 0]) =
      Inr ([1, 2, 3], sample_model\<lparr>freq := Some [1, 2, 3], ls_power := Some [0, 0, 0]\<rparr>)"
    by (simp add: set_freq_def)
  have f: "\<forall>v\<in>set (flux sample_model). isfinite v"
    by (simp add: sample_model_simps)
  have k: "find_peaks (length [1, 2, 3::real])
      (map (rising_periodogram (time sample_model) (flux sample_model)) [1, 2, 3]) = []"
    by (simp add: find_peaks_def rising_periodogram_def upt_rec)
  have d: "real (sum_list [1, 1, 1, 1]) - real (occupied [1, 1, 1, 1]) \<le> 0"
    by (simp add: occupied_def)
  have four: "(2::int) \<le> 4" by simp
  have pos: "\<forall>q\<in>set [1, 4::real]. 0 < q" by simp
  note t = degenerate_results_not_fatal[where rm = sample_model and mn = "1 / 2" and mx = 50
      and ifr = "Some [1, 2, 3]" and ipw = "Some [0, 0, 0]" and L = rising_periodogram
      and fr = "[1, 2, 3]"
      and ?rm1.0 = "sample_model\<lparr>freq := Some [1, 2, 3], ls_power := Some [0, 0, 0]\<rparr>"
      and est = centre_fit and cp = calc_phase and nbins = 4 and grid = "[1, 4]"
      and p = 4 and t = "[0, 1, 2, 3]" and ph = "[0, 1 / 4, 1 / 2, 3 / 4]" and x = "[1, 3, 2, 1]"
      and x_means = "[1, 3, 2, 1]" and phase_bs = "[0, 1 / 4, 1 / 2, 3 / 4, 1]"
      and Ns = "[1, 1, 1, 1]" and ?sj2s.0 = "[0, 0, 0, 0]" and x_binned = "[[1], [3], [2], [1]]"
      and phase_binned = "[[0], [1 / 4], [1 / 2], [3 / 4]]"]
  have a: "fst (ls_rotation rising_periodogram sample_model (1 / 2) 50 (Some [1, 2, 3]) (Some [0, 0, 0]) None)
     = Inr (Fin 0)"
    using t[THEN conjunct1] s f k by simp
  have b: "phi 4 4 [0, 1, 2, 3] (map Fin [1, 3, 2, 1]) = Inr NaN"
    using t[THEN conjunct2, THEN conjunct1, THEN mp, THEN conjunct1] four diagonal_fold diagonal_bins d
    by blast
  obtain pr where pr: "phis (snd (pdm_rotation phi centre_fit calc_phase sample_model [1, 4] 4)) = Some pr"
      "length pr = length [1, 4::real]"
      "\<forall>i<length [1, 4::real]. phi 4 ([1, 4] ! i) (time sample_model) (flux sample_model) = Inr (pr ! i)"
    using t[THEN conjunct2, THEN conjunct2, THEN mp] f four pos by blast
  have "phi 4 ([1, 4] ! 0) (time sample_model) (flux sample_model) = Inr (pr ! 0)"
    using pr(3)[rule_format, of 0] by simp
  then have p0: "pr ! 0 = Fin 1"
    using phi_sample_1 by (simp add: sample_model_simps)
  have "phi 4 ([1, 4] ! 1) (time sample_model) (flux sample_model) = Inr (pr ! 1)"
    using pr(3)[rule_format, of 1] by simp
  then have p1: "pr ! 1 = NaN"
    using phi_sample_4 by (simp add: sample_model_simps)
  have c: "\<exists>pr. phis (snd (pdm_rotation phi centre_fit calc_phase sample_model [1, 4] 4)) = Some pr \<and>
         length pr = 2 \<and> pr ! 0 = Fin 1 \<and> pr ! 1 = NaN"
    using pr(1,2) p0 p1 by simp
  show ?thesis by (intro conjI) (rule a, rule b, rule c)
qed

text \<open>
  A periodogram without a local maximum: \<open>ls_rotation\<close> returns and stores the number 0, a
  value of the same kind as a measured period.
\<close>

theorem no_peak_gives_numeric_zero:
  "find_peaks 3 (map (rising_periodogram (time sample_model) (flux sample_model)) [1, 2, 3]) = [] \<and>
   fst (ls_rotation rising_periodogram sample_model (1 / 2) 50 (Some [1, 2, 3]) (Some [0, 0, 0]) None)
     = Inr (Fin 0) \<and>
   ls_period (snd (ls_rotation rising_periodogram sample_model (1 / 2) 50 (Some [1, 2, 3]) (Some [0, 0, 0]) None))
     = Some (Fin 0)"
proof -
  have k: "find_peaks 3 (map (rising_periodogram (time sample_model) (flux sample_model)) [1, 2, 3]) = []"
    by (simp add: find_peaks_def rising_periodogram_def upt_rec)
  have k': "find_peaks (Suc (Suc (Suc 0))) [1, 2, 3] = []"
    by (simp add: find_peaks_def upt_rec)
  have r: "ls_rotation rising_periodogram sample_model (1 / 2) 50 (Some [1, 2, 3]) (Some [0, 0, 0]) None
     = (Inr (Fin 0), sample_model\<lparr>freq := Some [1, 2, 3], ls_power := Some [1, 2, 3], ls_period := Some (Fin 0)\<rparr>)"
    by (simp add: ls_rotation_def set_freq_def sample_model_simps Let_def rising_periodogram_def k')
  show ?thesis using k r by simp
qed

end
